theory Spec2Isabelle
  imports Complex_Main
begin

section \<open>Wall-clock time\<close>

text \<open>
  A naive Python \<open>datetime\<close> is modelled by the number of microseconds since
  0001-01-01T00:00:00, the first instant of \<open>date.min\<close>, which is a Monday
  (\<open>date.min.weekday() = 0\<close>). A \<open>timedelta\<close> is a number of microseconds.
\<close>

type_synonym datetime = int
type_synonym timedelta = int

definition us_per_minute :: int where
  "us_per_minute = 60000000"

definition us_per_hour :: int where
  "us_per_hour = 3600000000"

definition us_per_day :: int where
  "us_per_day = 86400000000"

definition hour :: "datetime \<Rightarrow> int" where
  "hour t = (t div us_per_hour) mod 24"

definition minute :: "datetime \<Rightarrow> int" where
  "minute t = (t div us_per_minute) mod 60"

definition weekday :: "datetime \<Rightarrow> int" where
  "weekday t = (t div us_per_day) mod 7"

definition total_seconds :: "timedelta \<Rightarrow> rat" where
  "total_seconds d = of_int d / 1000000"

section \<open>The multi-source VIX fetcher (anti_gravity_vix.py)\<close>

subsection \<open>Data\<close>

text \<open>The attributes that \<open>AntiGravityVIXFetcher.__init__\<close> sets.\<close>

record fetcher =
  max_age_minutes :: rat
  tolerance_percent :: rat
  historical_vix_range :: "rat \<times> rat"

text \<open>The fetcher built with the default arguments of \<open>__init__\<close>.\<close>

definition default_fetcher :: fetcher where
  "default_fetcher =
     \<lparr>max_age_minutes = 30, tolerance_percent = 5, historical_vix_range = (8, 40)\<rparr>"

text \<open>
  A Python float as the validators see it: not a number, an infinity, or finite, and
  then the rational it denotes (the two zeros are one). Comparing two finite floats is
  comparing these rationals; every comparison with \<open>NaN\<close> is false.
\<close>

datatype pyfloat = NaN | NInf | Fin rat | PInf

fun flt :: "pyfloat \<Rightarrow> pyfloat \<Rightarrow> bool" where
  "flt NaN y = False"
| "flt x NaN = False"
| "flt PInf y = False"
| "flt x NInf = False"
| "flt NInf y = True"
| "flt x PInf = True"
| "flt (Fin a) (Fin b) = (a < b)"

fun fle :: "pyfloat \<Rightarrow> pyfloat \<Rightarrow> bool" where
  "fle NaN y = False"
| "fle x NaN = False"
| "fle NInf y = True"
| "fle x PInf = True"
| "fle PInf y = False"
| "fle x NInf = False"
| "fle (Fin a) (Fin b) = (a \<le> b)"

text \<open>
  The dictionary that a source returns, with the type \<open>'v\<close> of its numbers. The key
  \<open>'value'\<close> is the field \<open>vix_value\<close>; \<open>change\<close> is \<open>None\<close> when the dictionary has no key
  \<open>'change'\<close>. The confidence is the string the source wrote, compared with \<open>'HIGH'\<close> by
  the consensus step. The validation takes the numbers as floats (\<open>pyfloat\<close>); the
  consensus step below is written for finite numbers, taken as the rationals they
  denote.
\<close>

record 'v vix_data =
  vix_value :: 'v
  change :: "'v option"
  timestamp :: datetime
  source :: string
  confidence :: string

text \<open>
  The dictionary that \<open>cross_validate_sources\<close> returns: the chosen source's
  dictionary with the keys \<open>'validated'\<close> and \<open>'num_sources'\<close> added.
\<close>

record 'v vix_result =
  best_source :: "'v vix_data"
  validated :: bool
  num_sources :: nat

datatype py_error = ZeroDivisionError | OverflowError

text \<open>The messages of the two validators, one constructor for each message.\<close>

datatype reason =
    Zero_or_negative
  | Unusually_low
  | Unusually_high
  | Within_normal_range
  | Too_old
  | Fresh

subsection \<open>The validators\<close>

text \<open>
  \<open>validate_vix_value\<close>: three comparisons of a float, each of which must be true to
  reject the value.
\<close>

definition validate_vix_value :: "fetcher \<Rightarrow> pyfloat \<Rightarrow> bool \<times> reason" where
  "validate_vix_value self v =
     (if fle v (Fin 0) then (False, Zero_or_negative)
      else if flt v (Fin (fst (historical_vix_range self))) then (False, Unusually_low)
      else if flt (Fin (snd (historical_vix_range self))) v then (False, Unusually_high)
      else (True, Within_normal_range))"

text \<open>
  The value of the variable \<open>max_age\<close> of \<open>validate_freshness\<close>, in minutes, when the
  clock reads \<open>now\<close>: the weekend assignment comes last and overrides the first one.
\<close>

definition max_age :: "fetcher \<Rightarrow> datetime \<Rightarrow> rat" where
  "max_age self now =
     (let current_hour = hour now;
          age0 = (if current_hour < 9 then 16 * 60 else max_age_minutes self);
          wd = weekday now
      in if wd \<ge> 5 \<or> (wd = 0 \<and> current_hour < 9) then 72 * 60 else age0)"

definition age_minutes :: "datetime \<Rightarrow> datetime \<Rightarrow> rat" where
  "age_minutes now ts = total_seconds (now - ts) / 60"

text \<open>
  \<open>validate_freshness\<close>, with the reading of \<open>datetime.now()\<close> as the argument \<open>now\<close>.
  A time-zone aware timestamp loses its zone (\<open>replace(tzinfo=None)\<close>), so the argument
  is the wall-clock value.
\<close>

definition validate_freshness :: "fetcher \<Rightarrow> datetime \<Rightarrow> datetime \<Rightarrow> bool \<times> reason" where
  "validate_freshness self now ts =
     (if age_minutes now ts > max_age self now then (False, Too_old) else (True, Fresh))"

subsection \<open>Statistics and rounding\<close>

text \<open>
  \<open>statistics.mean\<close> and \<open>statistics.median\<close> of finite numbers, taken as
  rationals; the code applies them to non-empty lists only (more than one value, or a
  non-empty list of changes).
\<close>

definition mean :: "rat list \<Rightarrow> rat" where
  "mean xs = sum_list xs / of_nat (length xs)"

definition median :: "rat list \<Rightarrow> rat" where
  "median xs =
     (let s = sort xs; n = length s
      in if n mod 2 = 1 then s ! (n div 2)
         else (s ! (n div 2 - 1) + s ! (n div 2)) / 2)"

text \<open>
  Python's \<open>max\<close> of a sequence of numbers. The code applies it to the deviations of
  two or more values; the equation for the empty list is never used.
\<close>

fun max_list :: "rat list \<Rightarrow> rat" where
  "max_list [] = 0"
| "max_list (x # xs) = fold max xs x"

text \<open>
  Python's \<open>max(xs, key=k)\<close>: the first element whose key is maximal, since the
  running best is replaced only by a strictly greater key.
\<close>

fun max_by :: "('a \<Rightarrow> rat) \<Rightarrow> 'a \<Rightarrow> 'a list \<Rightarrow> 'a" where
  "max_by k best [] = best"
| "max_by k best (x # xs) = max_by k (if k x > k best then x else best) xs"

definition max_key :: "('a \<Rightarrow> rat) \<Rightarrow> 'a list \<Rightarrow> 'a" where
  "max_key k xs = max_by k (hd xs) (tl xs)"

text \<open>
  Rounding to the nearest integer, a tie going to the even one, as \<open>round\<close> does. For a
  float that is printed as a decimal tie, Python decides by the binary value behind it,
  which a rational does not have; no example below rounds a tie.
\<close>

definition round_half_even :: "rat \<Rightarrow> int" where
  "round_half_even q =
     (let f = \<lfloor>q\<rfloor>; r = q - of_int f
      in if r < 1 / 2 then f
         else if r > 1 / 2 then f + 1
         else if even f then f else f + 1)"

text \<open>\<open>round(x, 2)\<close>.\<close>

definition round2 :: "rat \<Rightarrow> rat" where
  "round2 x = of_int (round_half_even (x * 100)) / 100"

subsection \<open>Cross-validation\<close>

text \<open>
  The loop of \<open>cross_validate_sources\<close> that fills \<open>valid_sources\<close>. The dictionary
  \<open>sources\<close> is the list of its items in insertion order. \<open>clock k\<close> is the \<open>k\<close>-th
  reading of \<open>datetime.now()\<close>: the clock is read once in each freshness check, and a
  source without data or with a rejected value does not reach that check.
\<close>

fun valid_sources ::
  "fetcher \<Rightarrow> (nat \<Rightarrow> datetime) \<Rightarrow> nat \<Rightarrow> (string \<times> pyfloat vix_data option) list
     \<Rightarrow> pyfloat vix_data list"
where
  "valid_sources self clock k [] = []"
| "valid_sources self clock k ((name, None) # rest) = valid_sources self clock k rest"
| "valid_sources self clock k ((name, Some d) # rest) =
     (if \<not> fst (validate_vix_value self (vix_value d))
      then valid_sources self clock k rest
      else if \<not> fst (validate_freshness self (clock k) (timestamp d))
      then valid_sources self clock (Suc k) rest
      else d # valid_sources self clock (Suc k) rest)"

text \<open>
  The largest relative deviation from the mean, in percent: the generator expression
  \<open>max(abs(v - mean_value) / mean_value * 100 for v in values)\<close>.
\<close>

definition max_deviation :: "rat list \<Rightarrow> rat \<Rightarrow> rat" where
  "max_deviation vals mean_value =
     max_list (map (\<lambda>v. \<bar>v - mean_value\<bar> / mean_value * 100) vals)"

text \<open>The variable \<open>consensus_value\<close>: the median when the sources disagree, else the mean.\<close>

definition consensus_value :: "fetcher \<Rightarrow> rat list \<Rightarrow> rat" where
  "consensus_value self vals =
     (let mean_value = mean vals
      in if max_deviation vals mean_value > tolerance_percent self then median vals
         else mean_value)"

text \<open>
  The variable \<open>consensus_change\<close>. The list comprehension keeps a source whose
  \<open>get('change')\<close> differs from 0, so also one without the key, and reads it with the
  default 0.
\<close>

definition consensus_change :: "rat vix_data list \<Rightarrow> rat" where
  "consensus_change vs =
     (let changes =
            map (\<lambda>s. case change s of None \<Rightarrow> 0 | Some c \<Rightarrow> c)
              (filter (\<lambda>s. change s \<noteq> Some 0) vs)
      in if changes \<noteq> [] then mean changes else 0)"

text \<open>The key of the final \<open>max\<close> over the valid sources.\<close>

definition confidence_key :: "'v vix_data \<Rightarrow> rat" where
  "confidence_key x = (if confidence x = ''HIGH'' then 1 else 1 / 2)"

text \<open>
  The rest of \<open>cross_validate_sources\<close>, from the test of \<open>valid_sources\<close> for
  emptiness to the end, for valid sources with finite numbers. The division by
  \<open>mean_value\<close> raises on zero.
\<close>

definition consensus ::
  "fetcher \<Rightarrow> rat vix_data list \<Rightarrow> py_error + rat vix_result option"
where
  "consensus self vs =
     (if vs = [] then Inr None
      else if length vs > 1 then
        (let vals = map vix_value vs
         in if mean vals = 0 then Inl ZeroDivisionError
            else
              (let best = max_key confidence_key vs
               in Inr (Some
                    \<lparr>best_source =
                       best\<lparr>vix_value := round2 (consensus_value self vals),
                            change := Some (round2 (consensus_change vs))\<rparr>,
                     validated = True,
                     num_sources = length vs\<rparr>)))
      else Inr (Some \<lparr>best_source = hd vs, validated = True, num_sources = 1\<rparr>))"

section \<open>The cascading stock fetcher (scripts/robust_stock_fetcher.py)\<close>

subsection \<open>Data\<close>

text \<open>The standardized dictionary that every source of \<open>fetch_stock\<close> returns.\<close>

record stock_data =
  symbol :: string
  lastPrice :: rat
  pChange :: rat
  yearHigh :: rat
  yearLow :: rat

text \<open>
  An entry of \<open>self.cache\<close>. The time stamp is \<open>None\<close> when the entry read from the cache
  file has no usable \<open>'timestamp'\<close> (missing, empty or not parseable); \<open>update_cache\<close>
  always writes one, the ISO form of the clock reading.
\<close>

record cache_entry =
  entry_data :: stock_data
  entry_timestamp :: "datetime option"
  entry_source :: string

type_synonym cache = "string \<rightharpoonup> cache_entry"

text \<open>The calls that one run of \<open>fetch_stock\<close> makes, in the order it makes them.\<close>

datatype call =
    Fetch_yahoo
  | Fetch_nse
  | Fetch_groww
  | Get_cached_data
  | Update_cache string

text \<open>
  The state of a \<open>RobustStockFetcher\<close>: its attributes, the content of the cache file,
  and the log of the calls made so far (each modelled method appends itself).
\<close>

record stock_fetcher =
  max_retries :: nat
  cache :: cache
  cache_file :: cache
  calls :: "call list"

text \<open>
  \<open>__init__\<close>: three retries, and the cache as \<open>_load_cache\<close> reads it from the file.
\<close>

definition init_stock_fetcher :: "cache \<Rightarrow> stock_fetcher" where
  "init_stock_fetcher file =
     \<lparr>max_retries = 3, cache = file, cache_file = file, calls = []\<rparr>"

text \<open>What the outside world answers during one run of \<open>fetch_stock\<close>.\<close>

record hist_row =
  Close :: rat
  High :: rat
  Low :: rat

datatype yf_reply =
    YF_raises string
  | YF_history "hist_row list"

datatype nse_reply =
    NSE_raises
  | NSE_response nat "rat option" "rat option" "rat option" "rat option"

datatype groww_reply =
    Groww_raises
  | Google_page "rat option"

record world =
  yf_history :: "nat \<Rightarrow> yf_reply"
  nse_quote :: nse_reply
  groww_google :: groww_reply
  disk_writable :: bool

subsection \<open>The cache\<close>

text \<open>\<open>_save_cache\<close>: the cache is written to the file; a failure is logged and swallowed.\<close>

definition save_cache :: "world \<Rightarrow> stock_fetcher \<Rightarrow> stock_fetcher" where
  "save_cache w self = (if disk_writable w then self\<lparr>cache_file := cache self\<rparr> else self)"

text \<open>
  \<open>get_cached_data\<close>, with the reading of \<open>datetime.now()\<close> as the argument \<open>now\<close>.
  The comparison with \<open>timedelta(hours=24)\<close> is strict.
\<close>

definition get_cached_data :: "stock_fetcher \<Rightarrow> datetime \<Rightarrow> string \<Rightarrow> stock_data option" where
  "get_cached_data self now ticker =
     (case cache self ticker of
        None \<Rightarrow> None
      | Some entry \<Rightarrow>
          (case entry_timestamp entry of
             None \<Rightarrow> None
           | Some ts \<Rightarrow>
               if now - ts < 24 * us_per_hour then Some (entry_data entry) else None))"

definition update_cache ::
  "world \<Rightarrow> datetime \<Rightarrow> string \<Rightarrow> stock_data \<Rightarrow> string \<Rightarrow> stock_fetcher \<Rightarrow> stock_fetcher"
where
  "update_cache w now ticker data src self =
     save_cache w
       (self\<lparr>cache := (cache self)(ticker \<mapsto>
                 \<lparr>entry_data = data, entry_timestamp = Some now, entry_source = src\<rparr>),
             calls := calls self @ [Update_cache src]\<rparr>)"

subsection \<open>The sources\<close>

text \<open>\<open>ticker.replace('.NS', '')\<close>: every occurrence is removed, from left to right.\<close>

fun replace_NS :: "string \<Rightarrow> string" where
  "replace_NS [] = []"
| "replace_NS (c # cs) =
     (if c = CHR ''.'' \<and> take 2 cs = ''NS'' then replace_NS (drop 2 cs)
      else c # replace_NS cs)"

text \<open>
  The body of the \<open>try\<close> in one round of the loop of \<open>_fetch_yahoo\<close>; \<open>None\<close> says that
  an exception reached the \<open>except\<close> clause: one that the library raised, the
  \<open>ValueError\<close> for an empty history, or the division by a previous close of zero.
\<close>

definition yahoo_attempt :: "string \<Rightarrow> yf_reply \<Rightarrow> stock_data option" where
  "yahoo_attempt ticker reply =
     (case reply of
        YF_raises msg \<Rightarrow> None
      | YF_history hist \<Rightarrow>
          if hist = [] then None
          else
            (let cls = Close (last hist);
                 prev = Close (hist ! (length hist - 2))
             in if length hist > 1 \<and> prev = 0 then None
                else
                  Some \<lparr>symbol = replace_NS ticker,
                        lastPrice = round2 cls,
                        pChange =
                          round2 (if length hist > 1 then (cls - prev) / prev * 100 else 0),
                        yearHigh = round2 (Max (set (map High hist))),
                        yearLow = round2 (Min (set (map Low hist)))\<rparr>))"

text \<open>
  The loop \<open>for attempt in range(self.max_retries)\<close>: \<open>n\<close> rounds are left and
  \<open>attempt\<close> calls of \<open>history\<close> have been made. Every exception is caught and the
  loop goes on. The second component counts the calls of \<open>history\<close>.
\<close>

fun yahoo_loop :: "string \<Rightarrow> (nat \<Rightarrow> yf_reply) \<Rightarrow> nat \<Rightarrow> nat \<Rightarrow> stock_data option \<times> nat" where
  "yahoo_loop ticker hist 0 attempt = (None, attempt)"
| "yahoo_loop ticker hist (Suc n) attempt =
     (case yahoo_attempt ticker (hist attempt) of
        Some data \<Rightarrow> (Some data, Suc attempt)
      | None \<Rightarrow> yahoo_loop ticker hist n (Suc attempt))"

definition fetch_yahoo ::
  "world \<Rightarrow> string \<Rightarrow> stock_fetcher \<Rightarrow> stock_data option \<times> stock_fetcher"
where
  "fetch_yahoo w ticker self =
     (fst (yahoo_loop ticker (yf_history w) (max_retries self) 0),
      self\<lparr>calls := calls self @ [Fetch_yahoo]\<rparr>)"

text \<open>
  \<open>_fetch_nse\<close>: the reply carries the status and the four fields read from
  \<open>priceInfo\<close>. A missing field makes \<open>float(None)\<close> raise, which the \<open>except\<close> swallows.
\<close>

definition fetch_nse ::
  "world \<Rightarrow> string \<Rightarrow> stock_fetcher \<Rightarrow> stock_data option \<times> stock_fetcher"
where
  "fetch_nse w ticker self =
     ((case nse_quote w of
         NSE_raises \<Rightarrow> None
       | NSE_response status last_price p_change year_high year_low \<Rightarrow>
           if status = 200 then
             (case last_price of
                None \<Rightarrow> None
              | Some lp \<Rightarrow>
                  if lp = 0 then None
                  else
                    (case (p_change, year_high, year_low) of
                       (Some pc, Some yh, Some yl) \<Rightarrow>
                         Some \<lparr>symbol = replace_NS ticker, lastPrice = lp, pChange = pc,
                               yearHigh = yh, yearLow = yl\<rparr>
                     | _ \<Rightarrow> None))
           else None),
      self\<lparr>calls := calls self @ [Fetch_nse]\<rparr>)"

text \<open>
  \<open>_fetch_groww\<close>: the search request has no effect on the result unless it raises;
  the price is then scraped from the Google Finance page, and the other three figures
  are the placeholders of the source.
\<close>

definition fetch_groww ::
  "world \<Rightarrow> string \<Rightarrow> stock_fetcher \<Rightarrow> stock_data option \<times> stock_fetcher"
where
  "fetch_groww w ticker self =
     ((case groww_google w of
         Groww_raises \<Rightarrow> None
       | Google_page None \<Rightarrow> None
       | Google_page (Some price) \<Rightarrow>
           Some \<lparr>symbol = replace_NS ticker, lastPrice = price, pChange = 0,
                 yearHigh = price * (12 / 10), yearLow = price * (8 / 10)\<rparr>),
      self\<lparr>calls := calls self @ [Fetch_groww]\<rparr>)"

text \<open>The cache lookup as \<open>fetch_stock\<close> calls it.\<close>

definition cache_fallback ::
  "datetime \<Rightarrow> string \<Rightarrow> stock_fetcher \<Rightarrow> stock_data option \<times> stock_fetcher"
where
  "cache_fallback now ticker self =
     (get_cached_data self now ticker, self\<lparr>calls := calls self @ [Get_cached_data]\<rparr>)"

subsection \<open>The cascade\<close>

text \<open>
  \<open>fetch_stock\<close>. The clock is read once, by \<open>update_cache\<close> or by
  \<open>get_cached_data\<close>; \<open>now\<close> is that reading. \<open>None\<close> is the terminal failure.
\<close>

definition fetch_stock ::
  "world \<Rightarrow> datetime \<Rightarrow> string \<Rightarrow> stock_fetcher \<Rightarrow> stock_data option \<times> stock_fetcher"
where
  "fetch_stock w now ticker self =
     (case fetch_yahoo w ticker self of
        (Some data, s1) \<Rightarrow> (Some data, update_cache w now ticker data ''Yahoo Finance'' s1)
      | (None, s1) \<Rightarrow>
          (case fetch_nse w ticker s1 of
             (Some data, s2) \<Rightarrow> (Some data, update_cache w now ticker data ''NSE Official'' s2)
           | (None, s2) \<Rightarrow>
               (case fetch_groww w ticker s2 of
                  (Some data, s3) \<Rightarrow> (Some data, update_cache w now ticker data ''Groww'' s3)
                | (None, s3) \<Rightarrow> cache_fallback now ticker s3)))"

section \<open>Requests with retries (fetch_data_v3.py)\<close>

record response =
  status_code :: nat
  content :: string

datatype http_reply =
    Request_raises
  | Replies response

text \<open>
  The loop of \<open>make_request_with_retries\<close>: \<open>n\<close> rounds are left, \<open>attempt\<close> requests
  have been sent, and \<open>resp\<close> is the variable \<open>response\<close>. Only status 200 leaves the
  loop; any other status and any exception lead to the next round. The second
  component counts the requests sent.
\<close>

fun request_loop ::
  "(nat \<Rightarrow> http_reply) \<Rightarrow> nat \<Rightarrow> nat \<Rightarrow> response option \<Rightarrow> response option \<times> nat"
where
  "request_loop get 0 attempt resp = (resp, attempt)"
| "request_loop get (Suc n) attempt resp =
     (case get attempt of
        Request_raises \<Rightarrow> request_loop get n (Suc attempt) resp
      | Replies r \<Rightarrow>
          if status_code r = 200 then (Some r, Suc attempt)
          else request_loop get n (Suc attempt) (Some r))"

text \<open>What a reply leaves in the variable \<open>response\<close>, and whether it ends the loop.\<close>

definition received :: "http_reply \<Rightarrow> response option" where
  "received reply = (case reply of Request_raises \<Rightarrow> None | Replies r \<Rightarrow> Some r)"

definition succeeded :: "http_reply \<Rightarrow> bool" where
  "succeeded reply =
     (case reply of Request_raises \<Rightarrow> False | Replies r \<Rightarrow> status_code r = 200)"

definition make_request_with_retries ::
  "(nat \<Rightarrow> http_reply) \<Rightarrow> nat \<Rightarrow> response option \<times> nat"
where
  "make_request_with_retries get retries = request_loop get retries 0 None"


section \<open>The trading calendar (fetch_data_v3.py)\<close>

text \<open>
  A \<open>date\<close> is its proleptic Gregorian ordinal (\<open>date.toordinal()\<close>): day 1 is
  0001-01-01, the smallest date there is. \<open>ymd\<close> is the constructor \<open>date(y, m, d)\<close>.
\<close>

type_synonym date = int

definition is_leap :: "int \<Rightarrow> bool" where
  "is_leap y = (y mod 4 = 0 \<and> (y mod 100 \<noteq> 0 \<or> y mod 400 = 0))"

definition days_before_year :: "int \<Rightarrow> int" where
  "days_before_year y = (y - 1) * 365 + (y - 1) div 4 - (y - 1) div 100 + (y - 1) div 400"

text \<open>The month is one of 1 to 12, as in every date of the holiday table.\<close>

definition days_before_month :: "int \<Rightarrow> nat \<Rightarrow> int" where
  "days_before_month y m =
     [0, 31, 59, 90, 120, 151, 181, 212, 243, 273, 304, 334] ! (m - 1)
     + (if m > 2 \<and> is_leap y then 1 else 0)"

definition ymd :: "int \<Rightarrow> nat \<Rightarrow> int \<Rightarrow> date" where
  "ymd y m d = days_before_year y + days_before_month y m + d"

text \<open>\<open>date.weekday()\<close>: Monday is 0 and Sunday is 6.\<close>

definition date_weekday :: "date \<Rightarrow> int" where
  "date_weekday d = (d + 6) mod 7"

text \<open>\<open>datetime.date()\<close> of a clock reading.\<close>

definition date_of :: "datetime \<Rightarrow> date" where
  "date_of t = t div us_per_day + 1"

definition holidays_2026 :: "date list" where
  "holidays_2026 =
     [ymd 2026 1 26, ymd 2026 3 8, ymd 2026 3 29, ymd 2026 4 2, ymd 2026 4 14,
      ymd 2026 4 17, ymd 2026 5 1, ymd 2026 5 15, ymd 2026 6 15, ymd 2026 8 15,
      ymd 2026 8 31, ymd 2026 9 30, ymd 2026 10 2, ymd 2026 10 25, ymd 2026 11 1,
      ymd 2026 11 15, ymd 2026 12 25]"

definition is_holiday_or_weekend :: "date \<Rightarrow> bool" where
  "is_holiday_or_weekend check_date =
     (if date_weekday check_date \<ge> 5 then True
      else if check_date \<in> set holidays_2026 then True
      else False)"

text \<open>
  \<open>check_date - timedelta(days=1)\<close>: the day before \<open>date.min\<close> does not exist, and
  the subtraction raises \<open>OverflowError\<close> there.
\<close>

definition day_before :: "date \<Rightarrow> py_error + date" where
  "day_before d = (if d - 1 < 1 then Inl OverflowError else Inr (d - 1))"

text \<open>The loop \<open>for _ in range(10)\<close> of \<open>get_last_trading_day\<close>, with \<open>n\<close> rounds left.\<close>

fun go_back :: "nat \<Rightarrow> date \<Rightarrow> py_error + date" where
  "go_back 0 check_date = Inr check_date"
| "go_back (Suc n) check_date =
     (if is_holiday_or_weekend check_date then
        (case day_before check_date of
           Inl e \<Rightarrow> Inl e
         | Inr d \<Rightarrow> go_back n d)
      else Inr check_date)"

text \<open>
  \<open>get_last_trading_day\<close>, with the reading of the clock (Indian wall-clock time, by
  either branch of the \<open>try\<close>) as the argument \<open>now\<close>.
\<close>

definition get_last_trading_day :: "datetime \<Rightarrow> py_error + date" where
  "get_last_trading_day now =
     (let today = date_of now
      in if hour now < 15 \<or> (hour now = 15 \<and> minute now < 30) then
           (case day_before today of
              Inl e \<Rightarrow> Inl e
            | Inr check_date \<Rightarrow> go_back 10 check_date)
         else go_back 10 today)"

section \<open>The option-chain cascade (fetch_data_v3.py)\<close>

text \<open>
  \<open>NSEOptionChainFetcher.fetch_nifty_data\<close>. The three scrapers are parameters: what
  each returns in the world of this run (\<open>None\<close> for a failure), the second one applied
  to the backup spot price. The log records which of them were called.
\<close>

datatype chain_call = From_nse | From_groww | From_moneycontrol

record 'a chain_world =
  from_nse :: "'a option"
  from_groww :: "rat option \<Rightarrow> 'a option"
  from_moneycontrol :: "'a option"

definition fetch_nifty_data ::
  "'a chain_world \<Rightarrow> rat option \<Rightarrow> chain_call list \<Rightarrow> 'a option \<times> chain_call list"
where
  "fetch_nifty_data w backup_spot_price called =
     (case (from_nse w, called @ [From_nse]) of
        (Some data, l1) \<Rightarrow> (Some data, l1)
      | (None, l1) \<Rightarrow>
          (case (from_groww w backup_spot_price, l1 @ [From_groww]) of
             (Some data, l2) \<Rightarrow> (Some data, l2)
           | (None, l2) \<Rightarrow>
               (case (from_moneycontrol w, l2 @ [From_moneycontrol]) of
                  (Some data, l3) \<Rightarrow> (Some data, l3)
                | (None, l3) \<Rightarrow> (None, l3))))"


section \<open>Sample inputs\<close>

text \<open>The constructor \<open>datetime(y, m, d, hh, mm)\<close>.\<close>

definition mk_datetime :: "int \<Rightarrow> nat \<Rightarrow> int \<Rightarrow> int \<Rightarrow> int \<Rightarrow> datetime" where
  "mk_datetime y m d hh mm =
     (ymd y m d - 1) * us_per_day + hh * us_per_hour + mm * us_per_minute"

text \<open>Tuesday 2026-11-03, 10:00.\<close>

definition tuesday_10 :: datetime where
  "tuesday_10 = mk_datetime 2026 11 3 10 0"

text \<open>
  What \<open>fetch_vix_yahoo_finance\<close> returns when the last close of the history is not a
  number: \<open>round(nan, 2)\<close> is \<open>nan\<close>, and so is the difference to the previous close.
  The time stamp is that of the last daily bar, Friday 2026-11-06, 00:00.
\<close>

definition nan_reading :: "pyfloat vix_data" where
  "nan_reading =
     \<lparr>vix_value = NaN, change = Some NaN, timestamp = mk_datetime 2026 11 6 0 0,
      source = ''Yahoo Finance'', confidence = ''HIGH''\<rparr>"

text \<open>The sources as \<open>get_india_vix\<close> collects them when only Yahoo answers.\<close>

definition nan_sources :: "(string \<times> pyfloat vix_data option) list" where
  "nan_sources =
     [(''yahoo_finance'', Some nan_reading), (''nse_official'', None), (''groww'', None),
      (''moneycontrol'', None)]"

text \<open>
  A world in which every live source fails: the library raises at each call, the NSE
  request raises, and so does the Groww search.
\<close>

definition failing_world :: world where
  "failing_world =
     \<lparr>yf_history = (\<lambda>_. YF_raises ''Too Many Requests''),
      nse_quote = NSE_raises,
      groww_google = Groww_raises,
      disk_writable = True\<rparr>"

text \<open>The same world, except that the Google Finance page shows the price 100.\<close>

definition google_world :: world where
  "google_world = failing_world\<lparr>groww_google := Google_page (Some 100)\<rparr>"

text \<open>
  A world in which the first call of the library answers with two rows: a close of 100
  after a close of 100, a highest high of 120 and a lowest low of 80.
\<close>

definition yahoo_world :: world where
  "yahoo_world =
     failing_world
       \<lparr>yf_history :=
          (\<lambda>_. YF_history [\<lparr>Close = 100, High = 120, Low = 80\<rparr>,
                            \<lparr>Close = 100, High = 110, Low = 90\<rparr>])\<rparr>"

text \<open>A quote of RELIANCE, and a fetcher whose cache holds it since Tuesday 10:00.\<close>

definition reliance :: stock_data where
  "reliance =
     \<lparr>symbol = ''RELIANCE'', lastPrice = 2850, pChange = 15 / 10,
      yearHigh = 3000, yearLow = 2500\<rparr>"

definition cached_fetcher :: stock_fetcher where
  "cached_fetcher =
     init_stock_fetcher
       [''RELIANCE.NS'' \<mapsto>
          \<lparr>entry_data = reliance, entry_timestamp = Some tuesday_10,
           entry_source = ''Yahoo Finance''\<rparr>]"

section \<open>Properties of the validators\<close>

lemma weekday_range: "0 \<le> weekday t \<and> weekday t < 7"
  by (simp add: weekday_def)

lemma hour_range: "0 \<le> hour t \<and> hour t < 24"
  by (simp add: hour_def)

lemma max_age_cases:
  "max_age self now =
     (if weekday now = 5 \<or> weekday now = 6 \<or> (weekday now = 0 \<and> hour now < 9) then 72 * 60
      else if hour now < 9 then 16 * 60
      else max_age_minutes self)"
  using weekday_range [of now] by (auto simp: max_age_def Let_def)

lemma validate_vix_value_accepts:
  "fst (validate_vix_value self v) \<longleftrightarrow>
     v = NaN
     \<or> (\<exists>q. v = Fin q \<and> 0 < q \<and> fst (historical_vix_range self) \<le> q
            \<and> q \<le> snd (historical_vix_range self))"
  by (cases v) (auto simp: validate_vix_value_def)

lemma validate_freshness_iff:
  "fst (validate_freshness self now ts) \<longleftrightarrow> age_minutes now ts \<le> max_age self now"
  by (auto simp: validate_freshness_def)

lemma valid_sources_sound:
  "d \<in> set (valid_sources self clock k sources) \<Longrightarrow>
     (\<exists>name. (name, Some d) \<in> set sources)
     \<and> fst (validate_vix_value self (vix_value d))
     \<and> (\<exists>j\<ge>k. fst (validate_freshness self (clock j) (timestamp d)))"
proof (induction self clock k sources rule: valid_sources.induct)
  case (1 self clock k)
  then show ?case by simp
next
  case (2 self clock k name rest)
  then show ?case by auto
next
  case (3 self clock k name d' rest)
  show ?case
  proof (cases "fst (validate_vix_value self (vix_value d'))")
    case False
    with 3 show ?thesis by auto
  next
    case ok: True
    show ?thesis
    proof (cases "fst (validate_freshness self (clock k) (timestamp d'))")
      case False
      with ok 3 have "d \<in> set (valid_sources self clock (Suc k) rest)" by simp
      with 3(2) ok False have
        "(\<exists>name. (name, Some d) \<in> set rest)
         \<and> fst (validate_vix_value self (vix_value d))
         \<and> (\<exists>j\<ge>Suc k. fst (validate_freshness self (clock j) (timestamp d)))"
        by simp
      then show ?thesis by (auto intro: Suc_leD)
    next
      case True
      show ?thesis
      proof (cases "d = d'")
        case True
        with ok \<open>fst (validate_freshness self (clock k) (timestamp d'))\<close> show ?thesis
          by auto
      next
        case False
        with ok True 3 have "d \<in> set (valid_sources self clock (Suc k) rest)" by simp
        with 3(3) ok True have
          "(\<exists>name. (name, Some d) \<in> set rest)
           \<and> fst (validate_vix_value self (vix_value d))
           \<and> (\<exists>j\<ge>Suc k. fst (validate_freshness self (clock j) (timestamp d)))"
          by simp
        then show ?thesis by (auto intro: Suc_leD)
      qed
    qed
  qed
qed

text \<open>
  C3: the freshness check compares the age of a reading, \<open>now - captured_at\<close> in
  minutes, with a ceiling that depends on the clock: 72 hours on Saturday, on Sunday and
  on Monday before 9 o'clock; otherwise 16 hours before 9 o'clock; otherwise the
  configured default, 30 minutes for the default fetcher. A reading older than the
  ceiling is rejected as too old, one that is not older is accepted, whatever the clock
  and the time stamp are.
\<close>

theorem freshness_ceiling:
  "max_age self now =
     (if weekday now = 5 \<or> weekday now = 6 \<or> (weekday now = 0 \<and> hour now < 9) then 72 * 60
      else if hour now < 9 then 16 * 60
      else max_age_minutes self)
   \<and> max_age_minutes default_fetcher = 30
   \<and> age_minutes now ts = of_int (now - ts) / 60000000
   \<and> (age_minutes now ts > max_age self now \<longrightarrow> validate_freshness self now ts = (False, Too_old))
   \<and> (age_minutes now ts \<le> max_age self now \<longrightarrow> validate_freshness self now ts = (True, Fresh))"
  using max_age_cases [of self now]
  by (simp add: validate_freshness_def default_fetcher_def age_minutes_def total_seconds_def)

text \<open>
  Witness for C3: on Monday 2026-11-02 at 08:00 the close of Friday 15:30 is fresh
  (64.5 hours against 72); on Tuesday 2026-11-03 at 10:00 a reading of 09:29 is too old
  (31 minutes against 30).
\<close>

theorem freshness_ceiling_witness:
  "age_minutes (mk_datetime 2026 11 2 8 0) (mk_datetime 2026 10 30 15 30)
     \<le> max_age default_fetcher (mk_datetime 2026 11 2 8 0)
   \<and> validate_freshness default_fetcher (mk_datetime 2026 11 2 8 0) (mk_datetime 2026 10 30 15 30)
       = (True, Fresh)
   \<and> age_minutes (mk_datetime 2026 11 3 10 0) (mk_datetime 2026 11 3 9 29)
     > max_age default_fetcher (mk_datetime 2026 11 3 10 0)
   \<and> validate_freshness default_fetcher (mk_datetime 2026 11 3 10 0) (mk_datetime 2026 11 3 9 29)
       = (False, Too_old)"
proof -
  have fresh: "age_minutes (mk_datetime 2026 11 2 8 0) (mk_datetime 2026 10 30 15 30)
     \<le> max_age default_fetcher (mk_datetime 2026 11 2 8 0)"
    by code_simp
  have stale: "age_minutes (mk_datetime 2026 11 3 10 0) (mk_datetime 2026 11 3 9 29)
     > max_age default_fetcher (mk_datetime 2026 11 3 10 0)"
    by code_simp
  from fresh stale
    freshness_ceiling [of default_fetcher "mk_datetime 2026 11 2 8 0" "mk_datetime 2026 10 30 15 30"]
    freshness_ceiling [of default_fetcher "mk_datetime 2026 11 3 10 0" "mk_datetime 2026 11 3 9 29"]
  show ?thesis by blast
qed

text \<open>
  C7 fails on the code. The three comparisons of \<open>validate_vix_value\<close> are all false
  for a value that is not a number, so the validator answers that it is within the
  normal range, although it lies in no range. On Saturday 2026-11-07 at 10:00 the
  reading that Yahoo delivers for a last close that is not a number is fresh as well
  (34 hours against 72), and the loop of \<open>cross_validate_sources\<close> keeps it as the one
  valid source, from which the result is then made.
\<close>

theorem nan_reading_validated:
  "validate_vix_value default_fetcher NaN = (True, Within_normal_range)
   \<and> validate_freshness default_fetcher (mk_datetime 2026 11 7 10 0) (timestamp nan_reading)
       = (True, Fresh)
   \<and> valid_sources default_fetcher (\<lambda>_. mk_datetime 2026 11 7 10 0) 0 nan_sources
       = [nan_reading]"
  by code_simp

section \<open>Properties of the consensus\<close>






text \<open>
  The value in the result is the rounded one: for the readings 10, 10 and 10.01 the
  largest deviation, 200/3001 percent, is within the tolerance of 5 percent, and the
  value returned is 10, not the mean 3001/300.
\<close>

lemma returned_value_is_rounded:
  "consensus default_fetcher
     [\<lparr>vix_value = 10, change = Some 0, timestamp = 5, source = ''A'', confidence = ''HIGH''\<rparr>,
      \<lparr>vix_value = 10, change = Some 0, timestamp = 6, source = ''B'', confidence = ''HIGH''\<rparr>,
      \<lparr>vix_value = 1001 / 100, change = Some 0, timestamp = 7, source = ''C'', confidence = ''MEDIUM''\<rparr>]
   = Inr (Some \<lparr>best_source =
                  \<lparr>vix_value = 10, change = Some 0, timestamp = 5, source = ''A'', confidence = ''HIGH''\<rparr>,
                validated = True, num_sources = 3\<rparr>)
   \<and> mean [10, 10, 1001 / 100] = 3001 / 300
   \<and> max_deviation [10, 10, 1001 / 100] (3001 / 300) = 200 / 3001
   \<and> tolerance_percent default_fetcher = 5"
  by code_simp





section \<open>Properties of retrying\<close>

lemma request_loop_no_success:
  "(\<forall>i<n. \<not> succeeded (get (a + i))) \<Longrightarrow>
   request_loop get n a resp =
     (case List.map_filter received (map get [a..<a + n]) of
        [] \<Rightarrow> resp
      | rs \<Rightarrow> Some (last rs),
      a + n)"
proof (induction n arbitrary: a resp)
  case 0
  then show ?case by (simp add: List.map_filter_simps)
next
  case (Suc n)
  from Suc.prems have now: "\<not> succeeded (get a)"
    by (metis add.right_neutral zero_less_Suc)
  from Suc.prems have later: "\<forall>i<n. \<not> succeeded (get (Suc a + i))"
    by (metis add_Suc_shift Suc_less_eq)
  have upt: "[a..<Suc (a + n)] = a # [Suc a..<Suc (a + n)]"
    by (simp add: upt_rec)
  show ?case
  proof (cases "get a")
    case Request_raises
    then have "received (get a) = None" by (simp add: received_def)
    with Request_raises Suc.IH [OF later, of resp] show ?thesis
      by (simp add: upt List.map_filter_simps del: upt_Suc)
  next
    case (Replies r)
    with now have "status_code r \<noteq> 200" by (simp add: succeeded_def)
    moreover from Replies have "received (get a) = Some r" by (simp add: received_def)
    ultimately show ?thesis
      using Replies Suc.IH [OF later, of "Some r"]
      by (simp add: upt List.map_filter_simps del: upt_Suc split: list.splits)
  qed
qed

lemma request_loop_first_success:
  "k < n \<Longrightarrow> succeeded (get (a + k)) \<Longrightarrow> (\<forall>i<k. \<not> succeeded (get (a + i))) \<Longrightarrow>
   request_loop get n a resp = (received (get (a + k)), Suc (a + k))"
proof (induction k arbitrary: n a resp)
  case 0
  then obtain m where n: "n = Suc m" by (cases n) auto
  from 0 show ?case
    by (auto simp: n succeeded_def received_def split: http_reply.splits)
next
  case (Suc k)
  then obtain m where n: "n = Suc m" by (cases n) auto
  from Suc.prems have now: "\<not> succeeded (get a)"
    by (metis add.right_neutral zero_less_Suc)
  from Suc.prems have later: "\<forall>i<k. \<not> succeeded (get (Suc a + i))"
    by (metis add_Suc_shift Suc_less_eq)
  from Suc.prems have "k < m" "succeeded (get (Suc a + k))" by (simp_all add: n)
  from Suc.IH [OF this later] now show ?case
    by (auto simp: n succeeded_def split: http_reply.splits)
qed

lemma yahoo_loop_no_success:
  "(\<forall>i<n. yahoo_attempt ticker (hist (a + i)) = None) \<Longrightarrow>
   yahoo_loop ticker hist n a = (None, a + n)"
proof (induction n arbitrary: a)
  case 0
  then show ?case by simp
next
  case (Suc n)
  from Suc.prems have now: "yahoo_attempt ticker (hist a) = None"
    by (metis add.right_neutral zero_less_Suc)
  from Suc.prems have later: "\<forall>i<n. yahoo_attempt ticker (hist (Suc a + i)) = None"
    by (metis add_Suc_shift Suc_less_eq)
  from Suc.IH [OF later] now show ?case by simp
qed

lemma yahoo_loop_first_success:
  "k < n \<Longrightarrow> yahoo_attempt ticker (hist (a + k)) \<noteq> None \<Longrightarrow>
   (\<forall>i<k. yahoo_attempt ticker (hist (a + i)) = None) \<Longrightarrow>
   yahoo_loop ticker hist n a = (yahoo_attempt ticker (hist (a + k)), Suc (a + k))"
proof (induction k arbitrary: n a)
  case 0
  then obtain m where n: "n = Suc m" by (cases n) auto
  from 0 show ?case by (auto simp: n)
next
  case (Suc k)
  then obtain m where n: "n = Suc m" by (cases n) auto
  from Suc.prems have now: "yahoo_attempt ticker (hist a) = None"
    by (metis add.right_neutral zero_less_Suc)
  from Suc.prems have later: "\<forall>i<k. yahoo_attempt ticker (hist (Suc a + i)) = None"
    by (metis add_Suc_shift Suc_less_eq)
  from Suc.prems have "k < m" "yahoo_attempt ticker (hist (Suc a + k)) \<noteq> None"
    by (simp_all add: n)
  from Suc.IH [OF this later] now show ?case by (simp add: n)
qed

text \<open>
  C4, as the code has it: retrying makes no difference between classes of
  failure. \<open>make_request_with_retries\<close> sends the next request after every exception
  and after every status other than 200 (429 and 403 as well as 401 or 404): when none
  of the \<open>n\<close> attempts succeeds it has sent exactly \<open>n\<close> requests and returns the last
  response received, or \<open>None\<close> when every attempt raised; it stops at the first status
  200, after \<open>k + 1\<close> requests. The loop of \<open>_fetch_yahoo\<close> likewise makes exactly
  \<open>n\<close> calls when every attempt raises or finds no data, and then returns \<open>None\<close>;
  it stops at the first attempt that yields data. A new fetcher has three retries.
\<close>

theorem retry_every_failure:
  "((\<forall>i<n. \<not> succeeded (get i)) \<longrightarrow>
      make_request_with_retries get n =
        (case List.map_filter received (map get [0..<n]) of
           [] \<Rightarrow> None
         | rs \<Rightarrow> Some (last rs),
         n))
   \<and> (k < n \<and> succeeded (get k) \<and> (\<forall>i<k. \<not> succeeded (get i)) \<longrightarrow>
        make_request_with_retries get n = (received (get k), Suc k))
   \<and> ((\<forall>i<n. yahoo_attempt ticker (hist i) = None) \<longrightarrow>
        yahoo_loop ticker hist n 0 = (None, n))
   \<and> (k < n \<and> yahoo_attempt ticker (hist k) \<noteq> None
        \<and> (\<forall>i<k. yahoo_attempt ticker (hist i) = None) \<longrightarrow>
        yahoo_loop ticker hist n 0 = (yahoo_attempt ticker (hist k), Suc k))
   \<and> max_retries (init_stock_fetcher file) = 3"
  using request_loop_no_success [of n get 0 None]
    request_loop_first_success [of k n get 0 None]
    yahoo_loop_no_success [of n ticker hist 0]
    yahoo_loop_first_success [of k n ticker hist 0]
  by (simp add: make_request_with_retries_def init_stock_fetcher_def)

text \<open>
  Witness for C4: three answers 429 lead to three requests; a 200 at the second attempt
  ends the loop after two; the library raising three times leads to three calls, and a
  history at the second call ends the loop after two.
\<close>

theorem retry_every_failure_witness:
  "\<not> succeeded (Replies \<lparr>status_code = 429, content = ''Too Many Requests''\<rparr>)
   \<and> make_request_with_retries
        (\<lambda>_. Replies \<lparr>status_code = 429, content = ''Too Many Requests''\<rparr>) 3 =
       (Some \<lparr>status_code = 429, content = ''Too Many Requests''\<rparr>, 3)
   \<and> succeeded (Replies \<lparr>status_code = 200, content = ''ok''\<rparr>)
   \<and> make_request_with_retries
        (\<lambda>i. if i = 1 then Replies \<lparr>status_code = 200, content = ''ok''\<rparr> else Request_raises) 3 =
       (Some \<lparr>status_code = 200, content = ''ok''\<rparr>, 2)
   \<and> yahoo_attempt ''RELIANCE.NS'' (YF_raises ''Too Many Requests'') = None
   \<and> yahoo_loop ''RELIANCE.NS'' (yf_history failing_world) 3 0 = (None, 3)
   \<and> yahoo_loop ''RELIANCE.NS''
        (\<lambda>i. if i = 1 then yf_history yahoo_world i else YF_raises ''timeout'') 3 0 =
       (Some \<lparr>symbol = ''RELIANCE'', lastPrice = 100, pChange = 0, yearHigh = 120,
              yearLow = 80\<rparr>, 2)"
proof -
  let ?r429 = "Replies \<lparr>status_code = 429, content = ''Too Many Requests''\<rparr>"
  let ?g = "\<lambda>i::nat. if i = 1 then Replies \<lparr>status_code = 200, content = ''ok''\<rparr> else Request_raises"
  let ?h = "\<lambda>i::nat. if i = 1 then yf_history yahoo_world i else YF_raises ''timeout''"
  have a: "\<not> succeeded ?r429" by (simp add: succeeded_def)
  have b: "succeeded (Replies \<lparr>status_code = 200, content = ''ok''\<rparr>)" by (simp add: succeeded_def)
  have c: "yahoo_attempt ''RELIANCE.NS'' (YF_raises ''Too Many Requests'') = None"
    by (simp add: yahoo_attempt_def)
  have d: "yahoo_attempt ''RELIANCE.NS'' (yf_history yahoo_world 1) =
       Some \<lparr>symbol = ''RELIANCE'', lastPrice = 100, pChange = 0, yearHigh = 120,
              yearLow = 80\<rparr>"
    by code_simp
  have e: "yahoo_attempt ''RELIANCE.NS'' (YF_raises ''timeout'') = None"
    by (simp add: yahoo_attempt_def)
  have l: "List.map_filter received (map (\<lambda>_. ?r429) [0..<3]) \<noteq> []
      \<and> last (List.map_filter received (map (\<lambda>_. ?r429) [0..<3])) =
        \<lparr>status_code = 429, content = ''Too Many Requests''\<rparr>"
    by code_simp
  from a l retry_every_failure [of 3 "\<lambda>_. ?r429" 1 "''RELIANCE.NS''" "yf_history failing_world" Map.empty]
  have 1: "make_request_with_retries (\<lambda>_. ?r429) 3 =
       (Some \<lparr>status_code = 429, content = ''Too Many Requests''\<rparr>, 3)"
    by (auto split: list.splits)
  from c retry_every_failure [of 3 "\<lambda>_. ?r429" 1 "''RELIANCE.NS''" "yf_history failing_world" Map.empty]
  have 2: "yahoo_loop ''RELIANCE.NS'' (yf_history failing_world) 3 0 = (None, 3)"
    by (simp add: failing_world_def)
  from b d e retry_every_failure [of 3 ?g 1 "''RELIANCE.NS''" ?h Map.empty]
  have 3: "make_request_with_retries ?g 3 = (Some \<lparr>status_code = 200, content = ''ok''\<rparr>, 2)"
    and 4: "yahoo_loop ''RELIANCE.NS'' ?h 3 0 =
       (Some \<lparr>symbol = ''RELIANCE'', lastPrice = 100, pChange = 0, yearHigh = 120,
              yearLow = 80\<rparr>, 2)"
    by (simp_all add: succeeded_def received_def)
  from a b c 1 2 3 4 show ?thesis by blast
qed

text \<open>
  The claim C4 as stated fails: an address that answers 404 to every request is asked
  three times, not once, and a ticker without data is fetched three times.
\<close>

theorem retry_every_failure_counterexample:
  "make_request_with_retries (\<lambda>_. Replies \<lparr>status_code = 404, content = ''Not Found''\<rparr>) 3 =
     (Some \<lparr>status_code = 404, content = ''Not Found''\<rparr>, 3)
   \<and> yahoo_loop ''RELIANCE.NS'' (\<lambda>_. YF_history []) 3 0 = (None, 3)"
  by code_simp

section \<open>Properties of the cascade and of the cache\<close>

lemma fetch_stock_unfold:
  "fetch_stock w now ticker self =
     (case fst (fetch_yahoo w ticker self) of
        Some data \<Rightarrow>
          (Some data,
           update_cache w now ticker data ''Yahoo Finance''
             (self\<lparr>calls := calls self @ [Fetch_yahoo]\<rparr>))
      | None \<Rightarrow>
          (case fst (fetch_nse w ticker self) of
             Some data \<Rightarrow>
               (Some data,
                update_cache w now ticker data ''NSE Official''
                  (self\<lparr>calls := calls self @ [Fetch_yahoo, Fetch_nse]\<rparr>))
           | None \<Rightarrow>
               (case fst (fetch_groww w ticker self) of
                  Some data \<Rightarrow>
                    (Some data,
                     update_cache w now ticker data ''Groww''
                       (self\<lparr>calls := calls self @ [Fetch_yahoo, Fetch_nse, Fetch_groww]\<rparr>))
                | None \<Rightarrow>
                    (get_cached_data self now ticker,
                     self\<lparr>calls :=
                            calls self @ [Fetch_yahoo, Fetch_nse, Fetch_groww, Get_cached_data]\<rparr>))))"
  by (simp add: fetch_stock_def fetch_yahoo_def fetch_nse_def fetch_groww_def cache_fallback_def
      get_cached_data_def split: option.splits)

lemma update_cache_fields:
  "cache (update_cache w now ticker data src self) =
     (cache self)(ticker \<mapsto> \<lparr>entry_data = data, entry_timestamp = Some now, entry_source = src\<rparr>)"
  "calls (update_cache w now ticker data src self) = calls self @ [Update_cache src]"
  "max_retries (update_cache w now ticker data src self) = max_retries self"
  by (simp_all add: update_cache_def save_cache_def)

lemma get_cached_data_Some:
  "get_cached_data self now ticker = Some d \<longleftrightarrow>
     (\<exists>e ts. cache self ticker = Some e \<and> entry_timestamp e = Some ts
        \<and> now - ts < 24 * us_per_hour \<and> entry_data e = d)"
  by (auto simp: get_cached_data_def split: option.splits)

text \<open>
  C5: \<open>fetch_stock\<close> calls its sources in the order Yahoo, NSE, Groww and stops at the
  first one that returns data: the calls it adds to the log are exactly the sources up
  to that one, followed by the cache update. NSE is called exactly when Yahoo returned
  nothing, Groww exactly when Yahoo and NSE returned nothing, and the cache is read
  exactly when all three returned nothing; the result is then what the cache lookup
  gives, \<open>None\<close> being the terminal failure. \<open>fetch_nifty_data\<close> calls its three sources
  in the same way, without a cache.
\<close>

theorem cascade_order:
  "(\<exists>new.
      calls (snd (fetch_stock w now ticker self)) = calls self @ new
      \<and> new =
          (case fst (fetch_yahoo w ticker self) of
             Some d \<Rightarrow> [Fetch_yahoo, Update_cache ''Yahoo Finance'']
           | None \<Rightarrow>
               (case fst (fetch_nse w ticker self) of
                  Some d \<Rightarrow> [Fetch_yahoo, Fetch_nse, Update_cache ''NSE Official'']
                | None \<Rightarrow>
                    (case fst (fetch_groww w ticker self) of
                       Some d \<Rightarrow> [Fetch_yahoo, Fetch_nse, Fetch_groww, Update_cache ''Groww'']
                     | None \<Rightarrow> [Fetch_yahoo, Fetch_nse, Fetch_groww, Get_cached_data])))
      \<and> (Fetch_nse \<in> set new \<longleftrightarrow> fst (fetch_yahoo w ticker self) = None)
      \<and> (Fetch_groww \<in> set new \<longleftrightarrow>
           fst (fetch_yahoo w ticker self) = None \<and> fst (fetch_nse w ticker self) = None)
      \<and> (Get_cached_data \<in> set new \<longleftrightarrow>
           fst (fetch_yahoo w ticker self) = None \<and> fst (fetch_nse w ticker self) = None
           \<and> fst (fetch_groww w ticker self) = None))
   \<and> fst (fetch_stock w now ticker self) =
       (case fst (fetch_yahoo w ticker self) of
          Some d \<Rightarrow> Some d
        | None \<Rightarrow>
            (case fst (fetch_nse w ticker self) of
               Some d \<Rightarrow> Some d
             | None \<Rightarrow>
                 (case fst (fetch_groww w ticker self) of
                    Some d \<Rightarrow> Some d
                  | None \<Rightarrow> get_cached_data self now ticker)))
   \<and> (\<exists>new'.
        snd (fetch_nifty_data cw backup called) = called @ new'
        \<and> new' =
            (case from_nse cw of
               Some d \<Rightarrow> [From_nse]
             | None \<Rightarrow>
                 (case from_groww cw backup of
                    Some d \<Rightarrow> [From_nse, From_groww]
                  | None \<Rightarrow> [From_nse, From_groww, From_moneycontrol])))
   \<and> fst (fetch_nifty_data cw backup called) =
       (case from_nse cw of
          Some d \<Rightarrow> Some d
        | None \<Rightarrow>
            (case from_groww cw backup of
               Some d \<Rightarrow> Some d
             | None \<Rightarrow> from_moneycontrol cw))"
proof (intro conjI)
  show "\<exists>new.
      calls (snd (fetch_stock w now ticker self)) = calls self @ new
      \<and> new =
          (case fst (fetch_yahoo w ticker self) of
             Some d \<Rightarrow> [Fetch_yahoo, Update_cache ''Yahoo Finance'']
           | None \<Rightarrow>
               (case fst (fetch_nse w ticker self) of
                  Some d \<Rightarrow> [Fetch_yahoo, Fetch_nse, Update_cache ''NSE Official'']
                | None \<Rightarrow>
                    (case fst (fetch_groww w ticker self) of
                       Some d \<Rightarrow> [Fetch_yahoo, Fetch_nse, Fetch_groww, Update_cache ''Groww'']
                     | None \<Rightarrow> [Fetch_yahoo, Fetch_nse, Fetch_groww, Get_cached_data])))
      \<and> (Fetch_nse \<in> set new \<longleftrightarrow> fst (fetch_yahoo w ticker self) = None)
      \<and> (Fetch_groww \<in> set new \<longleftrightarrow>
           fst (fetch_yahoo w ticker self) = None \<and> fst (fetch_nse w ticker self) = None)
      \<and> (Get_cached_data \<in> set new \<longleftrightarrow>
           fst (fetch_yahoo w ticker self) = None \<and> fst (fetch_nse w ticker self) = None
           \<and> fst (fetch_groww w ticker self) = None)"
    by (simp add: fetch_stock_unfold update_cache_fields split: option.splits)
  show "fst (fetch_stock w now ticker self) =
       (case fst (fetch_yahoo w ticker self) of
          Some d \<Rightarrow> Some d
        | None \<Rightarrow>
            (case fst (fetch_nse w ticker self) of
               Some d \<Rightarrow> Some d
             | None \<Rightarrow>
                 (case fst (fetch_groww w ticker self) of
                    Some d \<Rightarrow> Some d
                  | None \<Rightarrow> get_cached_data self now ticker)))"
    by (simp add: fetch_stock_unfold split: option.splits)
  show "\<exists>new'.
        snd (fetch_nifty_data cw backup called) = called @ new'
        \<and> new' =
            (case from_nse cw of
               Some d \<Rightarrow> [From_nse]
             | None \<Rightarrow>
                 (case from_groww cw backup of
                    Some d \<Rightarrow> [From_nse, From_groww]
                  | None \<Rightarrow> [From_nse, From_groww, From_moneycontrol]))"
    by (simp add: fetch_nifty_data_def split: option.splits)
  show "fst (fetch_nifty_data cw backup called) =
       (case from_nse cw of
          Some d \<Rightarrow> Some d
        | None \<Rightarrow>
            (case from_groww cw backup of
               Some d \<Rightarrow> Some d
             | None \<Rightarrow> from_moneycontrol cw))"
    by (simp add: fetch_nifty_data_def split: option.splits)
qed

text \<open>
  Witness for C5: when the first call of the library answers, neither NSE nor Groww nor
  the cache is touched; an option chain found by the second scraper leaves the third
  one uncalled.
\<close>

theorem cascade_order_witness:
  "calls (snd (fetch_stock yahoo_world tuesday_10 ''RELIANCE.NS'' cached_fetcher)) =
     [Fetch_yahoo, Update_cache ''Yahoo Finance'']
   \<and> calls (snd (fetch_stock failing_world tuesday_10 ''RELIANCE.NS'' cached_fetcher)) =
     [Fetch_yahoo, Fetch_nse, Fetch_groww, Get_cached_data]
   \<and> fetch_nifty_data
        \<lparr>from_nse = None, from_groww = (\<lambda>_. Some ''chain''), from_moneycontrol = Some ''other''\<rparr>
        None [] =
       (Some ''chain'', [From_nse, From_groww])"
proof -
  let ?cw = "\<lparr>from_nse = None, from_groww = (\<lambda>_. Some ''chain''),
              from_moneycontrol = Some ''other''\<rparr>"
  have y: "fst (fetch_yahoo yahoo_world ''RELIANCE.NS'' cached_fetcher) =
      Some \<lparr>symbol = ''RELIANCE'', lastPrice = 100, pChange = 0, yearHigh = 120,
            yearLow = 80\<rparr>"
    by code_simp
  have f: "fst (fetch_yahoo failing_world ''RELIANCE.NS'' cached_fetcher) = None"
    "fst (fetch_nse failing_world ''RELIANCE.NS'' cached_fetcher) = None"
    "fst (fetch_groww failing_world ''RELIANCE.NS'' cached_fetcher) = None"
    by code_simp+
  have c: "calls cached_fetcher = []"
    by (simp add: cached_fetcher_def init_stock_fetcher_def)
  from y c cascade_order [of yahoo_world tuesday_10 "''RELIANCE.NS''" cached_fetcher ?cw None "[]"]
  have 1: "calls (snd (fetch_stock yahoo_world tuesday_10 ''RELIANCE.NS'' cached_fetcher)) =
     [Fetch_yahoo, Update_cache ''Yahoo Finance'']"
    by simp
  from f c cascade_order [of failing_world tuesday_10 "''RELIANCE.NS''" cached_fetcher ?cw None "[]"]
  have 2: "calls (snd (fetch_stock failing_world tuesday_10 ''RELIANCE.NS'' cached_fetcher)) =
     [Fetch_yahoo, Fetch_nse, Fetch_groww, Get_cached_data]"
    by simp
  from cascade_order [of yahoo_world tuesday_10 "''RELIANCE.NS''" cached_fetcher ?cw None "[]"]
  have 3: "fetch_nifty_data ?cw None [] = (Some ''chain'', [From_nse, From_groww])"
    by (simp add: prod_eq_iff)
  from 1 2 3 show ?thesis by blast
qed

text \<open>
  C2, as the code has it: \<open>get_cached_data\<close> returns the data of an entry exactly when
  the entry has a usable time stamp and is strictly younger than 24 hours,
  \<open>now - stored_at < ttl\<close>. When all three live sources fail, \<open>fetch_stock\<close> returns what
  that lookup gives: the cached data, or \<open>None\<close>, the terminal failure. An entry of 24
  hours or more is never returned by the lookup.
\<close>

theorem cache_fallback_strict:
  "(get_cached_data self now ticker = Some d \<longleftrightarrow>
      (\<exists>e ts. cache self ticker = Some e \<and> entry_timestamp e = Some ts
         \<and> now - ts < 24 * us_per_hour \<and> entry_data e = d))
   \<and> (fst (fetch_yahoo w ticker self) = None \<and> fst (fetch_nse w ticker self) = None
        \<and> fst (fetch_groww w ticker self) = None \<longrightarrow>
       fst (fetch_stock w now ticker self) = get_cached_data self now ticker)
   \<and> (cache self ticker = Some e \<and> entry_timestamp e = Some ts
        \<and> 24 * us_per_hour \<le> now - ts \<longrightarrow>
       get_cached_data self now ticker = None)"
  using get_cached_data_Some [of self now ticker d]
  by (auto simp: fetch_stock_unfold us_per_hour_def get_cached_data_def)

text \<open>
  Witness for C2: with every source failing, the entry stored on Tuesday at 10:00 is
  returned on Wednesday at 09:59 and no longer on Thursday at 09:59.
\<close>

theorem cache_fallback_strict_witness:
  "fst (fetch_yahoo failing_world ''RELIANCE.NS'' cached_fetcher) = None
   \<and> fst (fetch_nse failing_world ''RELIANCE.NS'' cached_fetcher) = None
   \<and> fst (fetch_groww failing_world ''RELIANCE.NS'' cached_fetcher) = None
   \<and> mk_datetime 2026 11 4 9 59 - tuesday_10 < 24 * us_per_hour
   \<and> fst (fetch_stock failing_world (mk_datetime 2026 11 4 9 59) ''RELIANCE.NS'' cached_fetcher)
       = Some reliance
   \<and> 24 * us_per_hour \<le> mk_datetime 2026 11 5 9 59 - tuesday_10
   \<and> get_cached_data cached_fetcher (mk_datetime 2026 11 5 9 59) ''RELIANCE.NS'' = None
   \<and> fst (fetch_stock failing_world (mk_datetime 2026 11 5 9 59) ''RELIANCE.NS'' cached_fetcher)
       = None"
proof -
  let ?e = "\<lparr>entry_data = reliance, entry_timestamp = Some tuesday_10,
             entry_source = ''Yahoo Finance''\<rparr>"
  have y: "fst (fetch_yahoo failing_world ''RELIANCE.NS'' cached_fetcher) = None"
    and n: "fst (fetch_nse failing_world ''RELIANCE.NS'' cached_fetcher) = None"
    and g: "fst (fetch_groww failing_world ''RELIANCE.NS'' cached_fetcher) = None"
    by code_simp+
  have c: "cache cached_fetcher ''RELIANCE.NS'' = Some ?e" "entry_timestamp ?e = Some tuesday_10"
    "entry_data ?e = reliance"
    by (simp_all add: cached_fetcher_def init_stock_fetcher_def)
  have young: "mk_datetime 2026 11 4 9 59 - tuesday_10 < 24 * us_per_hour"
    and old: "24 * us_per_hour \<le> mk_datetime 2026 11 5 9 59 - tuesday_10"
    by code_simp+
  from c young
    cache_fallback_strict
      [of cached_fetcher "mk_datetime 2026 11 4 9 59" "''RELIANCE.NS''" reliance
          failing_world ?e tuesday_10]
  have 1: "get_cached_data cached_fetcher (mk_datetime 2026 11 4 9 59) ''RELIANCE.NS''
       = Some reliance"
    by blast
  from y n g
    cache_fallback_strict
      [of cached_fetcher "mk_datetime 2026 11 4 9 59" "''RELIANCE.NS''" reliance
          failing_world ?e tuesday_10]
  have "fst (fetch_stock failing_world (mk_datetime 2026 11 4 9 59) ''RELIANCE.NS''
                 cached_fetcher)
          = get_cached_data cached_fetcher (mk_datetime 2026 11 4 9 59) ''RELIANCE.NS''"
    by blast
  with 1 have 2: "fst (fetch_stock failing_world (mk_datetime 2026 11 4 9 59) ''RELIANCE.NS''
                 cached_fetcher) = Some reliance"
    by simp
  from c old
    cache_fallback_strict
      [of cached_fetcher "mk_datetime 2026 11 5 9 59" "''RELIANCE.NS''" reliance
          failing_world ?e tuesday_10]
  have 3: "get_cached_data cached_fetcher (mk_datetime 2026 11 5 9 59) ''RELIANCE.NS'' = None"
    by blast
  from y n g
    cache_fallback_strict
      [of cached_fetcher "mk_datetime 2026 11 5 9 59" "''RELIANCE.NS''" reliance
          failing_world ?e tuesday_10]
  have "fst (fetch_stock failing_world (mk_datetime 2026 11 5 9 59) ''RELIANCE.NS''
                 cached_fetcher)
          = get_cached_data cached_fetcher (mk_datetime 2026 11 5 9 59) ''RELIANCE.NS''"
    by blast
  with 3 have 4: "fst (fetch_stock failing_world (mk_datetime 2026 11 5 9 59) ''RELIANCE.NS''
                 cached_fetcher) = None"
    by simp
  from y n g young old 2 3 4 show ?thesis by blast
qed

text \<open>
  The claim C2 as stated fails at the boundary: an entry stored exactly 24 hours ago
  satisfies \<open>now - stored_at \<le> ttl\<close>, yet the lookup returns nothing and \<open>fetch_stock\<close>
  ends in the terminal failure.
\<close>

theorem cache_fallback_counterexample:
  "cache cached_fetcher ''RELIANCE.NS'' =
     Some \<lparr>entry_data = reliance, entry_timestamp = Some tuesday_10,
           entry_source = ''Yahoo Finance''\<rparr>
   \<and> mk_datetime 2026 11 4 10 0 - tuesday_10 \<le> 24 * us_per_hour
   \<and> get_cached_data cached_fetcher (mk_datetime 2026 11 4 10 0) ''RELIANCE.NS'' = None
   \<and> fst (fetch_stock failing_world (mk_datetime 2026 11 4 10 0) ''RELIANCE.NS'' cached_fetcher)
       = None"
  by code_simp

text \<open>
  C9: \<open>update_cache\<close> overwrites the entry of its ticker whatever the cache held, and
  leaves the other entries alone. After \<open>fetch_stock\<close> the cache holds a new entry for
  the ticker, made of the live data, the clock reading and the name of the source,
  exactly when one of the three live sources returned data; when all of them failed,
  the cache and the cache file are what they were, whether the lookup hit a fresh
  entry, an expired one or none. The lookup itself changes neither. No entry is ever
  removed.
\<close>

theorem cache_written_on_live_fetch_only:
  "cache (update_cache w now ticker data src self) =
     (cache self)(ticker \<mapsto>
        \<lparr>entry_data = data, entry_timestamp = Some now, entry_source = src\<rparr>)
   \<and> cache (snd (fetch_stock w now ticker self)) =
       (case fst (fetch_yahoo w ticker self) of
          Some d \<Rightarrow>
            (cache self)(ticker \<mapsto>
               \<lparr>entry_data = d, entry_timestamp = Some now, entry_source = ''Yahoo Finance''\<rparr>)
        | None \<Rightarrow>
            (case fst (fetch_nse w ticker self) of
               Some d \<Rightarrow>
                 (cache self)(ticker \<mapsto>
                    \<lparr>entry_data = d, entry_timestamp = Some now,
                     entry_source = ''NSE Official''\<rparr>)
             | None \<Rightarrow>
                 (case fst (fetch_groww w ticker self) of
                    Some d \<Rightarrow>
                      (cache self)(ticker \<mapsto>
                         \<lparr>entry_data = d, entry_timestamp = Some now,
                          entry_source = ''Groww''\<rparr>)
                  | None \<Rightarrow> cache self)))
   \<and> cache_file (snd (fetch_stock w now ticker self)) =
       (if fst (fetch_yahoo w ticker self) = None \<and> fst (fetch_nse w ticker self) = None
           \<and> fst (fetch_groww w ticker self) = None
        then cache_file self
        else if disk_writable w then cache (snd (fetch_stock w now ticker self))
        else cache_file self)
   \<and> cache (snd (cache_fallback now ticker self)) = cache self
   \<and> cache_file (snd (cache_fallback now ticker self)) = cache_file self
   \<and> dom (cache self) \<subseteq> dom (cache (snd (fetch_stock w now ticker self)))"
proof (intro conjI)
  show "cache (update_cache w now ticker data src self) =
     (cache self)(ticker \<mapsto>
        \<lparr>entry_data = data, entry_timestamp = Some now, entry_source = src\<rparr>)"
    by (simp add: update_cache_def save_cache_def)
  show c: "cache (snd (fetch_stock w now ticker self)) =
       (case fst (fetch_yahoo w ticker self) of
          Some d \<Rightarrow>
            (cache self)(ticker \<mapsto>
               \<lparr>entry_data = d, entry_timestamp = Some now, entry_source = ''Yahoo Finance''\<rparr>)
        | None \<Rightarrow>
            (case fst (fetch_nse w ticker self) of
               Some d \<Rightarrow>
                 (cache self)(ticker \<mapsto>
                    \<lparr>entry_data = d, entry_timestamp = Some now,
                     entry_source = ''NSE Official''\<rparr>)
             | None \<Rightarrow>
                 (case fst (fetch_groww w ticker self) of
                    Some d \<Rightarrow>
                      (cache self)(ticker \<mapsto>
                         \<lparr>entry_data = d, entry_timestamp = Some now,
                          entry_source = ''Groww''\<rparr>)
                  | None \<Rightarrow> cache self)))"
    by (simp add: fetch_stock_unfold update_cache_fields split: option.splits)
  show "cache_file (snd (fetch_stock w now ticker self)) =
       (if fst (fetch_yahoo w ticker self) = None \<and> fst (fetch_nse w ticker self) = None
           \<and> fst (fetch_groww w ticker self) = None
        then cache_file self
        else if disk_writable w then cache (snd (fetch_stock w now ticker self))
        else cache_file self)"
    by (auto simp: fetch_stock_unfold update_cache_def save_cache_def split: option.splits)
  show "cache (snd (cache_fallback now ticker self)) = cache self"
    by (simp add: cache_fallback_def)
  show "cache_file (snd (cache_fallback now ticker self)) = cache_file self"
    by (simp add: cache_fallback_def)
  show "dom (cache self) \<subseteq> dom (cache (snd (fetch_stock w now ticker self)))"
    unfolding c by (auto split: option.splits)
qed

text \<open>
  Witness for C9: with every source failing two days after the entry was stored, the
  expired entry stays in the cache; a successful Yahoo fetch replaces it.
\<close>

theorem cache_written_on_live_fetch_only_witness:
  "cache (snd (fetch_stock failing_world (mk_datetime 2026 11 5 9 59) ''RELIANCE.NS''
                 cached_fetcher)) = cache cached_fetcher
   \<and> cache (snd (fetch_stock yahoo_world (mk_datetime 2026 11 5 9 59) ''RELIANCE.NS''
                 cached_fetcher)) ''RELIANCE.NS'' =
       Some \<lparr>entry_data =
               \<lparr>symbol = ''RELIANCE'', lastPrice = 100, pChange = 0, yearHigh = 120,
                yearLow = 80\<rparr>,
             entry_timestamp = Some (mk_datetime 2026 11 5 9 59),
             entry_source = ''Yahoo Finance''\<rparr>"
proof -
  have y: "fst (fetch_yahoo yahoo_world ''RELIANCE.NS'' cached_fetcher) =
      Some \<lparr>symbol = ''RELIANCE'', lastPrice = 100, pChange = 0, yearHigh = 120,
            yearLow = 80\<rparr>"
    by code_simp
  have f: "fst (fetch_yahoo failing_world ''RELIANCE.NS'' cached_fetcher) = None"
    "fst (fetch_nse failing_world ''RELIANCE.NS'' cached_fetcher) = None"
    "fst (fetch_groww failing_world ''RELIANCE.NS'' cached_fetcher) = None"
    by code_simp+
  from f cache_written_on_live_fetch_only
    [of failing_world "mk_datetime 2026 11 5 9 59" "''RELIANCE.NS''" reliance "''x''"
        cached_fetcher]
  have 1: "cache (snd (fetch_stock failing_world (mk_datetime 2026 11 5 9 59) ''RELIANCE.NS''
                 cached_fetcher)) = cache cached_fetcher"
    by simp
  from y cache_written_on_live_fetch_only
    [of yahoo_world "mk_datetime 2026 11 5 9 59" "''RELIANCE.NS''" reliance "''x''"
        cached_fetcher]
  have 2: "cache (snd (fetch_stock yahoo_world (mk_datetime 2026 11 5 9 59) ''RELIANCE.NS''
                 cached_fetcher)) ''RELIANCE.NS'' =
       Some \<lparr>entry_data =
               \<lparr>symbol = ''RELIANCE'', lastPrice = 100, pChange = 0, yearHigh = 120,
                yearLow = 80\<rparr>,
             entry_timestamp = Some (mk_datetime 2026 11 5 9 59),
             entry_source = ''Yahoo Finance''\<rparr>"
    by simp
  from 1 2 show ?thesis by blast
qed

text \<open>
  C6 fails on the code. With Yahoo and NSE failing and a price of 100 scraped from the
  Google Finance page, \<open>fetch_stock\<close> returns a change of 0, a year high of 120 and a
  year low of 80: the placeholders of \<open>_fetch_groww\<close>. The returned dictionary has no
  field that tells them from figures fetched live: it is equal to the one returned
  when Yahoo itself reports a close of 100, no change, a high of 120 and a low of 80.
\<close>

theorem placeholder_figures_unlabelled:
  "fst (fetch_stock google_world tuesday_10 ''RELIANCE.NS'' (init_stock_fetcher Map.empty)) =
     Some \<lparr>symbol = ''RELIANCE'', lastPrice = 100, pChange = 0, yearHigh = 120, yearLow = 80\<rparr>
   \<and> calls (snd (fetch_stock google_world tuesday_10 ''RELIANCE.NS''
                   (init_stock_fetcher Map.empty))) =
       [Fetch_yahoo, Fetch_nse, Fetch_groww, Update_cache ''Groww'']
   \<and> fst (fetch_stock yahoo_world tuesday_10 ''RELIANCE.NS'' (init_stock_fetcher Map.empty)) =
       Some \<lparr>symbol = ''RELIANCE'', lastPrice = 100, pChange = 0, yearHigh = 120, yearLow = 80\<rparr>
   \<and> calls (snd (fetch_stock yahoo_world tuesday_10 ''RELIANCE.NS''
                   (init_stock_fetcher Map.empty))) =
       [Fetch_yahoo, Update_cache ''Yahoo Finance'']"
  by code_simp

section \<open>Properties of the trading calendar\<close>

lemma holidays_2026_ordinals:
  "holidays_2026 =
     [739642, 739683, 739704, 739708, 739720, 739723, 739737, 739751, 739782, 739843,
      739859, 739889, 739891, 739914, 739921, 739935, 739975]"
  by (simp add: holidays_2026_def ymd_def days_before_year_def days_before_month_def is_leap_def)

lemma no_adjacent_holidays:
  "d \<in> set holidays_2026 \<Longrightarrow> d - 1 \<notin> set holidays_2026"
  by (auto simp: holidays_2026_ordinals)

lemma no_early_holidays:
  "d \<in> set holidays_2026 \<Longrightarrow> 739642 \<le> d"
  by (auto simp: holidays_2026_ordinals)

lemma two_weekdays_in_a_row:
  "\<exists>k::int. 0 \<le> k \<and> k \<le> 3 \<and> (d - k + 6) mod 7 < 5 \<and> (d - k - 1 + 6) mod 7 < 5"
  by presburger

lemma trading_day_nearby:
  "\<exists>k::nat. k \<le> 4 \<and> \<not> is_holiday_or_weekend (d - int k)"
proof -
  from two_weekdays_in_a_row [of d] obtain k :: int where
    k: "0 \<le> k" "k \<le> 3" "date_weekday (d - k) < 5" "date_weekday (d - k - 1) < 5"
    by (auto simp: date_weekday_def)
  show ?thesis
  proof (cases "d - k \<in> set holidays_2026")
    case False
    with k have "nat k \<le> 4 \<and> \<not> is_holiday_or_weekend (d - int (nat k))"
      by (simp add: is_holiday_or_weekend_def)
    then show ?thesis by blast
  next
    case True
    from no_adjacent_holidays [OF this] k
    have "nat (k + 1) \<le> 4 \<and> \<not> is_holiday_or_weekend (d - int (nat (k + 1)))"
      by (simp add: is_holiday_or_weekend_def algebra_simps)
    then show ?thesis by blast
  qed
qed

lemma first_days_trade:
  "1 \<le> d \<Longrightarrow> d \<le> 5 \<Longrightarrow> \<not> is_holiday_or_weekend d"
proof -
  assume "1 \<le> d" "d \<le> 5"
  then have "(d + 6) mod 7 < 5"
    by presburger
  moreover from \<open>d \<le> 5\<close> no_early_holidays [of d] have "d \<notin> set holidays_2026"
    by auto
  ultimately show ?thesis
    by (simp add: is_holiday_or_weekend_def date_weekday_def)
qed

lemma trading_day_nearby_in_range:
  assumes "1 \<le> d"
  shows "\<exists>k::nat. k \<le> 4 \<and> \<not> is_holiday_or_weekend (d - int k) \<and> 1 \<le> d - int k"
proof (cases "d \<le> 5")
  case True
  with assms first_days_trade [of d] have "\<not> is_holiday_or_weekend (d - int 0) \<and> 1 \<le> d - int 0"
    by simp
  then show ?thesis by blast
next
  case False
  from trading_day_nearby [of d] obtain k :: nat where
    "k \<le> 4" "\<not> is_holiday_or_weekend (d - int k)" by blast
  with False show ?thesis by (intro exI [of _ k]) simp
qed

lemma go_back_finds:
  "k < n \<Longrightarrow> \<not> is_holiday_or_weekend (d - int k) \<Longrightarrow> 1 \<le> d - int k \<Longrightarrow>
   \<exists>j\<le>k. go_back n d = Inr (d - int j) \<and> \<not> is_holiday_or_weekend (d - int j)"
proof (induction n arbitrary: d k)
  case 0
  then show ?case by simp
next
  case (Suc n)
  show ?case
  proof (cases "is_holiday_or_weekend d")
    case False
    then have "go_back (Suc n) d = Inr (d - int 0) \<and> \<not> is_holiday_or_weekend (d - int 0)"
      by simp
    then show ?thesis by blast
  next
    case True
    with Suc.prems(2) obtain k' where k': "k = Suc k'"
      by (cases k) auto
    with Suc.prems have a: "k' < n" "\<not> is_holiday_or_weekend (d - 1 - int k')"
      "1 \<le> d - 1 - int k'"
      by (simp_all add: algebra_simps)
    from Suc.IH [OF a] obtain j where
      j: "j \<le> k'" "go_back n (d - 1) = Inr (d - 1 - int j)"
         "\<not> is_holiday_or_weekend (d - 1 - int j)"
      by blast
    from a(3) have "day_before d = Inr (d - 1)"
      by (simp add: day_before_def)
    with True j k' have "Suc j \<le> k \<and> go_back (Suc n) d = Inr (d - int (Suc j))
        \<and> \<not> is_holiday_or_weekend (d - int (Suc j))"
      by (simp add: algebra_simps)
    then show ?thesis by blast
  qed
qed

lemma go_back_10:
  assumes "1 \<le> d"
  shows "\<exists>r. go_back 10 d = Inr r \<and> \<not> is_holiday_or_weekend r \<and> r \<le> d \<and> d - r \<le> 4"
proof -
  from trading_day_nearby_in_range [OF assms] obtain k :: nat where
    k: "k \<le> 4" "\<not> is_holiday_or_weekend (d - int k)" "1 \<le> d - int k" by blast
  then have "k < 10" by simp
  from go_back_finds [OF this k(2,3)] obtain j where
    "j \<le> k" "go_back 10 d = Inr (d - int j)" "\<not> is_holiday_or_weekend (d - int j)"
    by blast
  with k(1) show ?thesis by (intro exI [of _ "d - int j"]) simp
qed

text \<open>
  C10: for every reading of the clock, \<open>get_last_trading_day\<close> returns a date that is
  neither a weekend day nor a holiday, at most five days before today: among any
  five consecutive days one is a trading day, since two holidays of the table are never
  adjacent, so the ten rounds of the backward search are never used up. The clock
  reads 0001-01-02 or later: \<open>date.min\<close> has no day before it.
\<close>

theorem last_trading_day_trades:
  "(us_per_day \<le> now \<longrightarrow>
      (\<exists>d. get_last_trading_day now = Inr d \<and> \<not> is_holiday_or_weekend d
         \<and> d \<le> date_of now \<and> date_of now - d \<le> 5))
   \<and> (\<exists>k::nat. k < 10 \<and> \<not> is_holiday_or_weekend (c - int k))"
proof (intro conjI impI)
  assume "us_per_day \<le> now"
  then have "us_per_day div us_per_day \<le> now div us_per_day"
    by (rule zdiv_mono1) (simp add: us_per_day_def)
  then have today: "2 \<le> date_of now"
    by (simp add: date_of_def us_per_day_def)
  show "\<exists>d. get_last_trading_day now = Inr d \<and> \<not> is_holiday_or_weekend d
         \<and> d \<le> date_of now \<and> date_of now - d \<le> 5"
  proof (cases "hour now < 15 \<or> (hour now = 15 \<and> minute now < 30)")
    case True
    from today have "day_before (date_of now) = Inr (date_of now - 1)"
      by (simp add: day_before_def)
    with True have "get_last_trading_day now = go_back 10 (date_of now - 1)"
      unfolding get_last_trading_day_def Let_def by (simp only: if_True sum.case)
    moreover from today have "1 \<le> date_of now - 1" by simp
    from go_back_10 [OF this] obtain r where
      "go_back 10 (date_of now - 1) = Inr r" "\<not> is_holiday_or_weekend r"
      "r \<le> date_of now - 1" "date_of now - 1 - r \<le> 4"
      by blast
    ultimately show ?thesis by (intro exI [of _ r]) simp
  next
    case False
    then have "get_last_trading_day now = go_back 10 (date_of now)"
      unfolding get_last_trading_day_def Let_def by (simp only: if_False)
    moreover from today have "1 \<le> date_of now" by simp
    from go_back_10 [OF this] obtain r where
      "go_back 10 (date_of now) = Inr r" "\<not> is_holiday_or_weekend r"
      "r \<le> date_of now" "date_of now - r \<le> 4"
      by blast
    ultimately show ?thesis by (intro exI [of _ r]) simp
  qed
next
  from trading_day_nearby [of c] obtain k :: nat where
    "k \<le> 4" "\<not> is_holiday_or_weekend (c - int k)" by blast
  then have "k < 10 \<and> \<not> is_holiday_or_weekend (c - int k)" by simp
  then show "\<exists>k::nat. k < 10 \<and> \<not> is_holiday_or_weekend (c - int k)" by blast
qed

lemma monday_morning:
  "get_last_trading_day (mk_datetime 2026 11 2 10 0) = Inr (ymd 2026 10 30)"
  by code_simp

text \<open>
  Witness for C10: on Monday 2026-11-02 at 10:00 the search starts on Sunday, a holiday
  of the table, passes Saturday and stops on Friday 2026-10-30.
\<close>

theorem last_trading_day_trades_witness:
  "us_per_day \<le> mk_datetime 2026 11 2 10 0
   \<and> get_last_trading_day (mk_datetime 2026 11 2 10 0) = Inr (ymd 2026 10 30)
   \<and> is_holiday_or_weekend (ymd 2026 11 1)
   \<and> is_holiday_or_weekend (ymd 2026 10 31)
   \<and> \<not> is_holiday_or_weekend (ymd 2026 10 30)"
proof -
  have ge: "us_per_day \<le> mk_datetime 2026 11 2 10 0" by code_simp
  have h: "is_holiday_or_weekend (ymd 2026 11 1)" "is_holiday_or_weekend (ymd 2026 10 31)"
    by code_simp+
  from ge last_trading_day_trades [of "mk_datetime 2026 11 2 10 0" 0] monday_morning
  have "\<not> is_holiday_or_weekend (ymd 2026 10 30)"
    by auto
  with ge h monday_morning show ?thesis by blast
qed

end
